theory Spec2Isabelle
  imports Main "HOL-Library.Word"
begin

unbundle bit_operations_syntax

section \<open>The CHIP-8 machine of \<^verbatim>\<open>src/chip8.cpp\<close>\<close>

text \<open>
  The class \<^verbatim>\<open>Chip8\<close> is a record. Its fixed-size arrays are stores from the element
  number to the element; the size of each array is a constant of its own, and every
  subscript that the code does not keep below that size by a mask is compared with it:
  a subscript past the end of an array is an \<^verbatim>\<open>error\<close> value, since C++ gives it no
  meaning. The registers are subscripted by a nibble of the instruction word only.
  The random engine is a cursor \<^verbatim>\<open>randGen\<close> into a sequence of bytes \<^verbatim>\<open>randByte\<close>.
\<close>

type_synonym uint8_t = "8 word"
type_synonym uint16_t = "16 word"
type_synonym uint32_t = "32 word"

definition START_ADDRESS :: nat where "START_ADDRESS = 0x200"
definition FRONT_SIZE :: nat where "FRONT_SIZE = 80"
definition FONT_START_ADDRESS :: nat where "FONT_START_ADDRESS = 0x50"
definition VIDEO_WIDTH :: nat where "VIDEO_WIDTH = 64"
definition VIDEO_HEIGHT :: nat where "VIDEO_HEIGHT = 32"

definition MEMORY_SIZE :: nat where "MEMORY_SIZE = 4096"
definition STACK_SIZE :: nat where "STACK_SIZE = 16"
definition KEYPAD_SIZE :: nat where "KEYPAD_SIZE = 16"
definition VIDEO_SIZE :: nat where "VIDEO_SIZE = 64 * 32"

definition fontset :: "uint8_t list" where
  "fontset =
    [0xF0, 0x90, 0x90, 0x90, 0xF0,
     0x20, 0x60, 0x20, 0x20, 0x70,
     0xF0, 0x10, 0xF0, 0x80, 0xF0,
     0xF0, 0x10, 0xF0, 0x10, 0xF0,
     0x90, 0x90, 0xF0, 0x10, 0x10,
     0xF0, 0x80, 0xF0, 0x10, 0xF0,
     0xF0, 0x80, 0xF0, 0x90, 0xF0,
     0xF0, 0x10, 0x20, 0x40, 0x40,
     0xF0, 0x90, 0xF0, 0x90, 0xF0,
     0xF0, 0x90, 0xF0, 0x10, 0xF0,
     0xF0, 0x90, 0xF0, 0x90, 0x90,
     0xE0, 0x90, 0xE0, 0x90, 0xE0,
     0xF0, 0x80, 0x80, 0x80, 0xF0,
     0xE0, 0x90, 0x90, 0x90, 0xE0,
     0xF0, 0x80, 0xF0, 0x80, 0xF0,
     0xF0, 0x80, 0xF0, 0x80, 0x80]"

record chip8 =
  registers :: "nat \<Rightarrow> uint8_t"
  memory :: "nat \<Rightarrow> uint8_t"
  index :: uint16_t
  pc :: uint16_t
  stack :: "nat \<Rightarrow> uint16_t"
  sp :: uint8_t
  delayTimer :: uint8_t
  soundTimer :: uint8_t
  keypad :: "nat \<Rightarrow> uint8_t"
  video :: "nat \<Rightarrow> uint32_t"
  opcode :: uint16_t
  randGen :: nat
  randByte :: "nat \<Rightarrow> uint8_t"

datatype error =
  MemoryOutOfBounds | StackOutOfBounds | KeypadOutOfBounds | VideoOutOfBounds
  | TableOutOfBounds

subsection \<open>Array accesses\<close>

definition read_memory :: "chip8 \<Rightarrow> nat \<Rightarrow> error + uint8_t" where
  "read_memory s a = (if a < MEMORY_SIZE then Inr (memory s a) else Inl MemoryOutOfBounds)"

definition write_memory :: "nat \<Rightarrow> uint8_t \<Rightarrow> chip8 \<Rightarrow> error + chip8" where
  "write_memory a v s =
     (if a < MEMORY_SIZE then Inr (s\<lparr>memory := (memory s)(a := v)\<rparr>)
      else Inl MemoryOutOfBounds)"

subsection \<open>Operand fields of the instruction word\<close>

text \<open>\<^verbatim>\<open>(opcode & 0x0F00u) >> 8u\<close>, \<^verbatim>\<open>(opcode & 0x00F0u) >> 4u\<close> and
  \<^verbatim>\<open>opcode & 0x00FFu\<close>, as every handler computes them.\<close>

definition opVx :: "chip8 \<Rightarrow> nat" where
  "opVx s = unat (ucast (drop_bit 8 (opcode s AND 0x0F00)) :: uint8_t)"

definition opVy :: "chip8 \<Rightarrow> nat" where
  "opVy s = unat (ucast (drop_bit 4 (opcode s AND 0x00F0)) :: uint8_t)"

definition opByte :: "chip8 \<Rightarrow> uint8_t" where
  "opByte s = ucast (opcode s AND 0x00FF)"

subsection \<open>The constructor\<close>

definition Chip8 :: "(nat \<Rightarrow> uint8_t) \<Rightarrow> chip8" where
  "Chip8 rb =
     \<lparr> registers = (\<lambda>_. 0),
       memory = fold (\<lambda>i m. m(FONT_START_ADDRESS + i := fontset ! i)) [0..<FRONT_SIZE] (\<lambda>_. 0),
       index = 0,
       pc = of_nat START_ADDRESS,
       stack = (\<lambda>_. 0),
       sp = 0,
       delayTimer = 0,
       soundTimer = 0,
       keypad = (\<lambda>_. 0),
       video = (\<lambda>_. 0),
       opcode = 0,
       randGen = 0,
       randByte = rb \<rparr>"

subsection \<open>The instructions\<close>

definition OP_00E0 :: "chip8 \<Rightarrow> error + chip8" where
  "OP_00E0 s = Inr (s\<lparr>video := (\<lambda>_. 0)\<rparr>)"

definition OP_00EE :: "chip8 \<Rightarrow> error + chip8" where
  "OP_00EE s =
     (let s1 = s\<lparr>sp := sp s - 1\<rparr> in
      if unat (sp s1) < STACK_SIZE then Inr (s1\<lparr>pc := stack s1 (unat (sp s1))\<rparr>)
      else Inl StackOutOfBounds)"

definition OP_1nnn :: "chip8 \<Rightarrow> error + chip8" where
  "OP_1nnn s = (let address = opcode s AND 0x0FFF in Inr (s\<lparr>pc := address\<rparr>))"

definition OP_2nnn :: "chip8 \<Rightarrow> error + chip8" where
  "OP_2nnn s =
     (let address = opcode s AND 0x0FFF in
      if unat (sp s) < STACK_SIZE then
        (let s1 = s\<lparr>stack := (stack s)(unat (sp s) := pc s)\<rparr>;
             s2 = s1\<lparr>sp := sp s1 + 1\<rparr>
         in Inr (s2\<lparr>pc := address\<rparr>))
      else Inl StackOutOfBounds)"

definition OP_3xkk :: "chip8 \<Rightarrow> error + chip8" where
  "OP_3xkk s =
     (let Vx = opVx s; byte = opByte s in
      if registers s Vx = byte then Inr (s\<lparr>pc := pc s + 2\<rparr>) else Inr s)"

definition OP_4xkk :: "chip8 \<Rightarrow> error + chip8" where
  "OP_4xkk s =
     (let Vx = opVx s; byte = opByte s in
      if registers s Vx \<noteq> byte then Inr (s\<lparr>pc := pc s + 2\<rparr>) else Inr s)"

definition OP_5xy0 :: "chip8 \<Rightarrow> error + chip8" where
  "OP_5xy0 s =
     (let Vx = opVx s; Vy = opVy s in
      if registers s Vx = registers s Vy then Inr (s\<lparr>pc := pc s + 2\<rparr>) else Inr s)"

definition OP_6xkk :: "chip8 \<Rightarrow> error + chip8" where
  "OP_6xkk s =
     (let Vx = opVx s; byte = opByte s in
      Inr (s\<lparr>registers := (registers s)(Vx := byte)\<rparr>))"

definition OP_7xkk :: "chip8 \<Rightarrow> error + chip8" where
  "OP_7xkk s =
     (let Vx = opVx s; byte = opByte s in
      Inr (s\<lparr>registers := (registers s)(Vx := registers s Vx + byte)\<rparr>))"

definition OP_8xy0 :: "chip8 \<Rightarrow> error + chip8" where
  "OP_8xy0 s =
     (let Vx = opVx s; Vy = opVy s in
      Inr (s\<lparr>registers := (registers s)(Vx := registers s Vy)\<rparr>))"

definition OP_8xy1 :: "chip8 \<Rightarrow> error + chip8" where
  "OP_8xy1 s =
     (let Vx = opVx s; Vy = opVy s in
      Inr (s\<lparr>registers := (registers s)(Vx := registers s Vx OR registers s Vy)\<rparr>))"

definition OP_8xy2 :: "chip8 \<Rightarrow> error + chip8" where
  "OP_8xy2 s =
     (let Vx = opVx s; Vy = opVy s in
      Inr (s\<lparr>registers := (registers s)(Vx := registers s Vx AND registers s Vy)\<rparr>))"

definition OP_8xy3 :: "chip8 \<Rightarrow> error + chip8" where
  "OP_8xy3 s =
     (let Vx = opVx s; Vy = opVy s in
      Inr (s\<lparr>registers := (registers s)(Vx := registers s Vx XOR registers s Vy)\<rparr>))"

text \<open>\<^verbatim>\<open>uint16_t sum = registers[Vx] + registers[Vy]\<close>: the flag is written first, the
  low byte of the sum after it.\<close>

definition OP_8xy4 :: "chip8 \<Rightarrow> error + chip8" where
  "OP_8xy4 s =
     (let Vx = opVx s; Vy = opVy s;
          sum = (ucast (registers s Vx) + ucast (registers s Vy) :: uint16_t);
          s1 = (if sum > 255 then s\<lparr>registers := (registers s)(0xF := 1)\<rparr>
                else s\<lparr>registers := (registers s)(0xF := 0)\<rparr>)
      in Inr (s1\<lparr>registers := (registers s1)(Vx := ucast (sum AND 0xFF))\<rparr>))"

definition OP_8xy5 :: "chip8 \<Rightarrow> error + chip8" where
  "OP_8xy5 s =
     (let Vx = opVx s; Vy = opVy s;
          s1 = (if registers s Vx > registers s Vy then s\<lparr>registers := (registers s)(0xF := 1)\<rparr>
                else s\<lparr>registers := (registers s)(0xF := 0)\<rparr>)
      in Inr (s1\<lparr>registers := (registers s1)(Vx := registers s1 Vx - registers s1 Vy)\<rparr>))"

definition OP_8xy6 :: "chip8 \<Rightarrow> error + chip8" where
  "OP_8xy6 s =
     (let Vx = opVx s;
          s1 = s\<lparr>registers := (registers s)(0xF := registers s Vx AND 0x1)\<rparr>
      in Inr (s1\<lparr>registers := (registers s1)(Vx := drop_bit 1 (registers s1 Vx))\<rparr>))"

definition OP_8xy7 :: "chip8 \<Rightarrow> error + chip8" where
  "OP_8xy7 s =
     (let Vx = opVx s; Vy = opVy s;
          s1 = (if registers s Vy > registers s Vx then s\<lparr>registers := (registers s)(0xF := 1)\<rparr>
                else s\<lparr>registers := (registers s)(0xF := 0)\<rparr>)
      in Inr (s1\<lparr>registers := (registers s1)(Vx := registers s1 Vy - registers s1 Vx)\<rparr>))"

definition OP_8xyE :: "chip8 \<Rightarrow> error + chip8" where
  "OP_8xyE s =
     (let Vx = opVx s;
          s1 = s\<lparr>registers := (registers s)(0xF := drop_bit 7 (registers s Vx AND 0x80))\<rparr>
      in Inr (s1\<lparr>registers := (registers s1)(Vx := push_bit 1 (registers s1 Vx))\<rparr>))"

definition OP_9xy0 :: "chip8 \<Rightarrow> error + chip8" where
  "OP_9xy0 s =
     (let Vx = opVx s; Vy = opVy s in
      if registers s Vx \<noteq> registers s Vy then Inr (s\<lparr>pc := pc s + 2\<rparr>) else Inr s)"

text \<open>\<^verbatim>\<open>uint8_t address = opcode & 0x0FFFu; index = address;\<close>: the local is a byte.\<close>

definition OP_Annn :: "chip8 \<Rightarrow> error + chip8" where
  "OP_Annn s =
     (let address = (ucast (opcode s AND 0x0FFF) :: uint8_t) in
      Inr (s\<lparr>index := ucast address\<rparr>))"

definition OP_Bnnn :: "chip8 \<Rightarrow> error + chip8" where
  "OP_Bnnn s =
     (let address = opcode s AND 0x0FFF in
      Inr (s\<lparr>pc := ucast (registers s 0) + address\<rparr>))"

definition OP_Cxkk :: "chip8 \<Rightarrow> error + chip8" where
  "OP_Cxkk s =
     (let Vx = opVx s; byte = opByte s;
          r = randByte s (randGen s);
          s1 = s\<lparr>randGen := randGen s + 1\<rparr>
      in Inr (s1\<lparr>registers := (registers s1)(Vx := r AND byte)\<rparr>))"

text \<open>One pixel of a sprite: \<^verbatim>\<open>screenPixel\<close> is \<^verbatim>\<open>&video[k]\<close>. A pixel that is on sets the
  collision flag, then the pixel is toggled.\<close>

definition Dxyn_pixel :: "nat \<Rightarrow> chip8 \<Rightarrow> chip8" where
  "Dxyn_pixel k s =
     (let s1 = (if video s k = 0xFFFFFFFF then s\<lparr>registers := (registers s)(0xF := 1)\<rparr> else s)
      in s1\<lparr>video := (video s1)(k := video s1 k XOR 0xFFFFFFFF)\<rparr>)"

text \<open>The inner loop \<^verbatim>\<open>for (col = 0; col < 8; ++col)\<close>. The subscript
  \<^verbatim>\<open>(yPos + row) * VIDEO_WIDTH + (xPos + col)\<close> is computed in \<^verbatim>\<open>unsigned int\<close> and is not
  reduced; the pixel is dereferenced only where the sprite bit is set.\<close>

function Dxyn_cols :: "nat \<Rightarrow> nat \<Rightarrow> nat \<Rightarrow> uint8_t \<Rightarrow> nat \<Rightarrow> chip8 \<Rightarrow> error + chip8" where
  "Dxyn_cols xPos yPos row spriteByte col s =
     (if col < 8 then
        (if spriteByte AND drop_bit col 0x80 \<noteq> 0 then
           (if (yPos + row) * VIDEO_WIDTH + (xPos + col) < VIDEO_SIZE then
              Dxyn_cols xPos yPos row spriteByte (col + 1)
                (Dxyn_pixel ((yPos + row) * VIDEO_WIDTH + (xPos + col)) s)
            else Inl VideoOutOfBounds)
         else Dxyn_cols xPos yPos row spriteByte (col + 1) s)
      else Inr s)"
  by pat_completeness auto
termination
  by (relation "measure (\<lambda>(xPos, yPos, row, spriteByte, col, s). 8 - col)") auto

declare Dxyn_cols.simps [simp del]

text \<open>The outer loop \<^verbatim>\<open>for (row = 0; row < height; ++row)\<close>.\<close>

function Dxyn_rows :: "nat \<Rightarrow> nat \<Rightarrow> nat \<Rightarrow> nat \<Rightarrow> chip8 \<Rightarrow> error + chip8" where
  "Dxyn_rows xPos yPos height row s =
     (if row < height then
        (case read_memory s (unat (index s) + row) of
           Inl e \<Rightarrow> Inl e
         | Inr spriteByte \<Rightarrow>
             (case Dxyn_cols xPos yPos row spriteByte 0 s of
                Inl e \<Rightarrow> Inl e
              | Inr s1 \<Rightarrow> Dxyn_rows xPos yPos height (row + 1) s1))
      else Inr s)"
  by pat_completeness auto
termination
  by (relation "measure (\<lambda>(xPos, yPos, height, row, s). height - row)") auto

declare Dxyn_rows.simps [simp del]

definition OP_Dxyn :: "chip8 \<Rightarrow> error + chip8" where
  "OP_Dxyn s =
     (let Vx = opVx s; Vy = opVy s;
          height = unat (ucast (opcode s AND 0x000F) :: uint8_t);
          xPos = unat (registers s Vx) mod VIDEO_WIDTH;
          yPos = unat (registers s Vy) mod VIDEO_HEIGHT;
          s1 = s\<lparr>registers := (registers s)(0xF := 0)\<rparr>
      in Dxyn_rows xPos yPos height 0 s1)"

definition OP_Ex9E :: "chip8 \<Rightarrow> error + chip8" where
  "OP_Ex9E s =
     (let Vx = opVx s; key = unat (registers s Vx) in
      if key < KEYPAD_SIZE then
        (if keypad s key \<noteq> 0 then Inr (s\<lparr>pc := pc s + 2\<rparr>) else Inr s)
      else Inl KeypadOutOfBounds)"

definition OP_ExA1 :: "chip8 \<Rightarrow> error + chip8" where
  "OP_ExA1 s =
     (let Vx = opVx s; key = unat (registers s Vx) in
      if key < KEYPAD_SIZE then
        (if keypad s key = 0 then Inr (s\<lparr>pc := pc s + 2\<rparr>) else Inr s)
      else Inl KeypadOutOfBounds)"

definition OP_Fx07 :: "chip8 \<Rightarrow> error + chip8" where
  "OP_Fx07 s = (let Vx = opVx s in Inr (s\<lparr>registers := (registers s)(Vx := delayTimer s)\<rparr>))"

text \<open>The scan \<^verbatim>\<open>for (int i = 0; i < 16; ++i)\<close> of the keypad: it has no \<^verbatim>\<open>break\<close>, every
  pressed key assigns the register.\<close>

function Fx0A_scan :: "nat \<Rightarrow> nat \<Rightarrow> bool \<Rightarrow> chip8 \<Rightarrow> bool \<times> chip8" where
  "Fx0A_scan Vx i keyPress s =
     (if i < 16 then
        (if keypad s i \<noteq> 0 then
           Fx0A_scan Vx (i + 1) True (s\<lparr>registers := (registers s)(Vx := of_nat i)\<rparr>)
         else Fx0A_scan Vx (i + 1) keyPress s)
      else (keyPress, s))"
  by pat_completeness auto
termination
  by (relation "measure (\<lambda>(Vx, i, keyPress, s). 16 - i)") auto

declare Fx0A_scan.simps [simp del]

definition OP_Fx0A :: "chip8 \<Rightarrow> error + chip8" where
  "OP_Fx0A s =
     (let Vx = opVx s; r = Fx0A_scan Vx 0 False s in
      if \<not> fst r then Inr ((snd r)\<lparr>pc := pc (snd r) - 2\<rparr>) else Inr (snd r))"

definition OP_Fx15 :: "chip8 \<Rightarrow> error + chip8" where
  "OP_Fx15 s = (let Vx = opVx s in Inr (s\<lparr>delayTimer := registers s Vx\<rparr>))"

definition OP_Fx18 :: "chip8 \<Rightarrow> error + chip8" where
  "OP_Fx18 s = (let Vx = opVx s in Inr (s\<lparr>soundTimer := registers s Vx\<rparr>))"

definition OP_Fx1E :: "chip8 \<Rightarrow> error + chip8" where
  "OP_Fx1E s = (let Vx = opVx s in Inr (s\<lparr>index := index s + ucast (registers s Vx)\<rparr>))"

definition OP_Fx29 :: "chip8 \<Rightarrow> error + chip8" where
  "OP_Fx29 s =
     (let Vx = opVx s; digit = registers s Vx in
      Inr (s\<lparr>index := of_nat (FONT_START_ADDRESS + 5 * unat digit)\<rparr>))"

text \<open>\<^verbatim>\<open>value % 10\<close> and \<^verbatim>\<open>value /= 10\<close> on a byte; the ones place is written first.\<close>

definition OP_Fx33 :: "chip8 \<Rightarrow> error + chip8" where
  "OP_Fx33 s =
     (let Vx = opVx s; value0 = registers s Vx in
      case write_memory (unat (index s) + 2) (value0 mod 10) s of
        Inl e \<Rightarrow> Inl e
      | Inr s1 \<Rightarrow>
          (let value1 = value0 div 10 in
           case write_memory (unat (index s1) + 1) (value1 mod 10) s1 of
             Inl e \<Rightarrow> Inl e
           | Inr s2 \<Rightarrow>
               (let value2 = value1 div 10 in
                write_memory (unat (index s2)) (value2 mod 10) s2)))"

text \<open>The loops \<^verbatim>\<open>for (uint8_t i = 0; i <= Vx; ++i)\<close>: \<^verbatim>\<open>Vx\<close> is a nibble, so the byte
  \<^verbatim>\<open>i\<close> never wraps.\<close>

function Fx55_loop :: "nat \<Rightarrow> nat \<Rightarrow> chip8 \<Rightarrow> error + chip8" where
  "Fx55_loop Vx i s =
     (if i \<le> Vx then
        (case write_memory (unat (index s) + i) (registers s i) s of
           Inl e \<Rightarrow> Inl e
         | Inr s1 \<Rightarrow> Fx55_loop Vx (i + 1) s1)
      else Inr s)"
  by pat_completeness auto
termination
  by (relation "measure (\<lambda>(Vx, i, s). Vx + 1 - i)") auto

declare Fx55_loop.simps [simp del]

definition OP_Fx55 :: "chip8 \<Rightarrow> error + chip8" where
  "OP_Fx55 s = (let Vx = opVx s in Fx55_loop Vx 0 s)"

function Fx65_loop :: "nat \<Rightarrow> nat \<Rightarrow> chip8 \<Rightarrow> error + chip8" where
  "Fx65_loop Vx i s =
     (if i \<le> Vx then
        (case read_memory s (unat (index s) + i) of
           Inl e \<Rightarrow> Inl e
         | Inr v \<Rightarrow> Fx65_loop Vx (i + 1) (s\<lparr>registers := (registers s)(i := v)\<rparr>))
      else Inr s)"
  by pat_completeness auto
termination
  by (relation "measure (\<lambda>(Vx, i, s). Vx + 1 - i)") auto

declare Fx65_loop.simps [simp del]

definition OP_Fx65 :: "chip8 \<Rightarrow> error + chip8" where
  "OP_Fx65 s = (let Vx = opVx s in Fx65_loop Vx 0 s)"

definition OP_NULL :: "chip8 \<Rightarrow> error + chip8" where
  "OP_NULL s = Inr s"

subsection \<open>The dispatch tables\<close>

text \<open>The tables are arrays of member-function pointers, filled once by the constructor:
  \<^verbatim>\<open>table0\<close>, \<^verbatim>\<open>table8\<close> and \<^verbatim>\<open>tableE\<close> are declared with \<^verbatim>\<open>0xE + 1\<close> entries and
  \<^verbatim>\<open>tableF\<close> with \<^verbatim>\<open>0x65 + 1\<close>, all set to \<^verbatim>\<open>OP_NULL\<close> before the defined entries are
  assigned.\<close>

type_synonym Chip8Func = "chip8 \<Rightarrow> error + chip8"

definition call_table :: "Chip8Func list \<Rightarrow> nat \<Rightarrow> chip8 \<Rightarrow> error + chip8" where
  "call_table tbl i s = (if i < length tbl then (tbl ! i) s else Inl TableOutOfBounds)"

definition table0 :: "Chip8Func list" where
  "table0 = (replicate (0xE + 1) OP_NULL)[0x0 := OP_00E0, 0xE := OP_00EE]"

definition table8 :: "Chip8Func list" where
  "table8 = (replicate (0xE + 1) OP_NULL)
     [0x0 := OP_8xy0, 0x1 := OP_8xy1, 0x2 := OP_8xy2, 0x3 := OP_8xy3, 0x4 := OP_8xy4,
      0x5 := OP_8xy5, 0x6 := OP_8xy6, 0x7 := OP_8xy7, 0xE := OP_8xyE]"

definition tableE :: "Chip8Func list" where
  "tableE = (replicate (0xE + 1) OP_NULL)[0x1 := OP_ExA1, 0xE := OP_Ex9E]"

definition tableF :: "Chip8Func list" where
  "tableF = (replicate (0x65 + 1) OP_NULL)
     [0x07 := OP_Fx07, 0x0A := OP_Fx0A, 0x15 := OP_Fx15, 0x18 := OP_Fx18, 0x1E := OP_Fx1E,
      0x29 := OP_Fx29, 0x33 := OP_Fx33, 0x55 := OP_Fx55, 0x65 := OP_Fx65]"

definition Table0 :: "chip8 \<Rightarrow> error + chip8" where
  "Table0 s = call_table table0 (unat (opcode s AND 0x000F)) s"

definition Table8 :: "chip8 \<Rightarrow> error + chip8" where
  "Table8 s = call_table table8 (unat (opcode s AND 0x000F)) s"

definition TableE :: "chip8 \<Rightarrow> error + chip8" where
  "TableE s = call_table tableE (unat (opcode s AND 0x000F)) s"

definition TableF :: "chip8 \<Rightarrow> error + chip8" where
  "TableF s = call_table tableF (unat (opcode s AND 0x00FF)) s"

definition table :: "Chip8Func list" where
  "table =
     [Table0, OP_1nnn, OP_2nnn, OP_3xkk, OP_4xkk, OP_5xy0, OP_6xkk, OP_7xkk,
      Table8, OP_9xy0, OP_Annn, OP_Bnnn, OP_Cxkk, OP_Dxyn, TableE, TableF]"

subsection \<open>One cycle\<close>

definition update_timers :: "chip8 \<Rightarrow> chip8" where
  "update_timers s =
     (let s1 = (if delayTimer s > 0 then s\<lparr>delayTimer := delayTimer s - 1\<rparr> else s)
      in if soundTimer s1 > 0 then s1\<lparr>soundTimer := soundTimer s1 - 1\<rparr> else s1)"

text \<open>The fetch \<^verbatim>\<open>opcode = (memory[pc] << 8u) | memory[pc + 1]\<close>; \<^verbatim>\<open>pc + 1\<close> is an
  \<^verbatim>\<open>int\<close> and does not wrap.\<close>

definition fetch :: "chip8 \<Rightarrow> error + chip8" where
  "fetch s =
     (case read_memory s (unat (pc s)) of
        Inl e \<Rightarrow> Inl e
      | Inr hi \<Rightarrow>
          (case read_memory s (unat (pc s) + 1) of
             Inl e \<Rightarrow> Inl e
           | Inr lo \<Rightarrow> Inr (s\<lparr>opcode := push_bit 8 (ucast hi) OR ucast lo\<rparr>)))"

definition Cycle :: "chip8 \<Rightarrow> error + chip8" where
  "Cycle s =
     (case fetch s of
        Inl e \<Rightarrow> Inl e
      | Inr s1 \<Rightarrow>
          (let s2 = s1\<lparr>pc := pc s1 + 2\<rparr> in
           case call_table table (unat (drop_bit 12 (opcode s2 AND 0xF000))) s2 of
             Inl e \<Rightarrow> Inl e
           | Inr s3 \<Rightarrow> Inr (update_timers s3)))"

section \<open>Example machine states\<close>

text \<open>The machine as the constructor leaves it, with a random source that yields zeros;
  the examples below change a few fields of it.\<close>

definition example_state :: chip8 where
  "example_state = Chip8 (\<lambda>_. 0)"


definition add_state :: "uint16_t \<Rightarrow> nat \<Rightarrow> uint8_t \<Rightarrow> nat \<Rightarrow> uint8_t \<Rightarrow> chip8" where
  "add_state w x a y b = example_state\<lparr>opcode := w, registers := (\<lambda>_. 0)(y := b, x := a)\<rparr>"

definition transfer_state :: "uint16_t \<Rightarrow> chip8" where
  "transfer_state w =
     example_state\<lparr>opcode := w, index := 0x300,
       registers := (\<lambda>_. 0)(0 := 11, 1 := 22, 2 := 33, 3 := 44)\<rparr>"

definition bcd_state :: chip8 where
  "bcd_state = example_state\<lparr>opcode := 0xF233, index := 0x300, registers := (\<lambda>_. 0)(2 := 137)\<rparr>"

definition draw_state :: "uint8_t \<Rightarrow> uint8_t \<Rightarrow> chip8" where
  "draw_state x y =
     example_state\<lparr>opcode := 0xD011, index := 0x300, registers := (\<lambda>_. 0)(0 := x, 1 := y),
       memory := (memory example_state)(0x300 := 0xFF)\<rparr>"

definition wait_state :: "(nat \<Rightarrow> uint8_t) \<Rightarrow> chip8" where
  "wait_state ks =
     example_state\<lparr>memory := (memory example_state)(0x200 := 0xF3, 0x201 := 0x0A),
       keypad := ks\<rparr>"

definition jump_state :: chip8 where
  "jump_state =
     example_state\<lparr>memory := (memory example_state)(0x200 := 0xBF, 0x201 := 0xFF),
       registers := (\<lambda>_. 0)(0 := 0xFF)\<rparr>"

section \<open>Bytes and words\<close>

lemma example_state_simps [simp]:
  "registers example_state = (\<lambda>_. 0)" "index example_state = 0" "pc example_state = 0x200"
  "sp example_state = 0" "keypad example_state = (\<lambda>_. 0)" "video example_state = (\<lambda>_. 0)"
  "delayTimer example_state = 0" "soundTimer example_state = 0" "opcode example_state = 0"
  by (simp_all add: example_state_def Chip8_def START_ADDRESS_def)

lemma unat_byte_less: "unat a < 256" for a :: "8 word"
  using unsigned_less [of a, where 'a = nat] by simp

lemma unat_ucast_byte: "unat (ucast a :: 16 word) = unat a" for a :: "8 word"
  using unat_byte_less [of a] by (simp add: unsigned_ucast_eq take_bit_eq_mod)

lemma unat_sum16: "unat (ucast a + ucast b :: 16 word) = unat a + unat b" for a b :: "8 word"
proof -
  have "unat (ucast a :: 16 word) + unat (ucast b :: 16 word) < 2 ^ LENGTH(16)"
    using unat_byte_less [of a] unat_byte_less [of b] by (simp add: unat_ucast_byte)
  then show ?thesis
    by (simp add: unat_add_lem [THEN iffD1] unat_ucast_byte)
qed

lemma low_byte16: "unat (ucast (w AND 0xFF) :: 8 word) = unat w mod 256" for w :: "16 word"
proof -
  have "w AND 0xFF = take_bit 8 w"
    by (simp add: take_bit_eq_mask mask_eq_exp_minus_1)
  then show ?thesis
    by (simp only: unsigned_ucast_eq unsigned_take_bit_eq) (simp add: take_bit_eq_mod)
qed






section \<open>The register-block loops\<close>

lemma below_memory_size: "(n < MEMORY_SIZE) = (n \<le> 0x0FFF)"
  by (auto simp: MEMORY_SIZE_def)

lemma Fx55_loop_ok:
  "unat (index s) + Vx < MEMORY_SIZE \<Longrightarrow>
   Fx55_loop Vx i s =
     Inr (s\<lparr>memory := (\<lambda>a. if unat (index s) + i \<le> a \<and> a \<le> unat (index s) + Vx
                            then registers s (a - unat (index s)) else memory s a)\<rparr>)"
proof (induction Vx i s rule: Fx55_loop.induct)
  case (1 Vx i s)
  show ?case
  proof (cases "i \<le> Vx")
    case True
    let ?s1 = "s\<lparr>memory := (memory s)(unat (index s) + i := registers s i)\<rparr>"
    have w: "write_memory (unat (index s) + i) (registers s i) s = Inr ?s1"
      using True "1.prems" by (simp add: write_memory_def)
    have "Fx55_loop Vx i s = Fx55_loop Vx (i + 1) ?s1"
      using True w by (subst Fx55_loop.simps) simp
    also have "\<dots> = Inr (?s1\<lparr>memory := (\<lambda>a. if unat (index ?s1) + (i + 1) \<le> a \<and> a \<le> unat (index ?s1) + Vx
                            then registers ?s1 (a - unat (index ?s1)) else memory ?s1 a)\<rparr>)"
      using "1.IH"[OF True w] "1.prems" by simp
    also have "\<dots> = Inr (s\<lparr>memory := (\<lambda>a. if unat (index s) + i \<le> a \<and> a \<le> unat (index s) + Vx
                            then registers s (a - unat (index s)) else memory s a)\<rparr>)"
      using True
      apply simp
      apply (rule arg_cong [where f = "\<lambda>m. s\<lparr>memory := m\<rparr>"])
      apply (auto simp: fun_eq_iff)
      done
    finally show ?thesis .
  next
    case False
    then have "Fx55_loop Vx i s = Inr s"
      by (subst Fx55_loop.simps) simp
    moreover have "(\<lambda>a. if unat (index s) + i \<le> a \<and> a \<le> unat (index s) + Vx
                            then registers s (a - unat (index s)) else memory s a) = memory s"
      using False by (auto simp: fun_eq_iff)
    ultimately show ?thesis by simp
  qed
qed

lemma Fx55_loop_fail:
  "\<not> unat (index s) + Vx < MEMORY_SIZE \<Longrightarrow> i \<le> Vx \<Longrightarrow> Fx55_loop Vx i s = Inl MemoryOutOfBounds"
proof (induction Vx i s rule: Fx55_loop.induct)
  case (1 Vx i s)
  show ?case
  proof (cases "unat (index s) + i < MEMORY_SIZE")
    case True
    let ?s1 = "s\<lparr>memory := (memory s)(unat (index s) + i := registers s i)\<rparr>"
    have w: "write_memory (unat (index s) + i) (registers s i) s = Inr ?s1"
      using True by (simp add: write_memory_def)
    have lt: "i + 1 \<le> Vx" using True "1.prems" by (cases "i = Vx") auto
    have "Fx55_loop Vx i s = Fx55_loop Vx (i + 1) ?s1"
      using "1.prems" w by (subst Fx55_loop.simps) simp
    also have "\<dots> = Inl MemoryOutOfBounds"
      using "1.IH"[OF "1.prems"(2) w] "1.prems" lt by simp
    finally show ?thesis .
  next
    case False
    then show ?thesis using "1.prems"
      by (subst Fx55_loop.simps) (simp add: write_memory_def)
  qed
qed

lemma Fx65_loop_ok:
  "unat (index s) + Vx < MEMORY_SIZE \<Longrightarrow>
   Fx65_loop Vx i s =
     Inr (s\<lparr>registers := (\<lambda>j. if i \<le> j \<and> j \<le> Vx
                            then memory s (unat (index s) + j) else registers s j)\<rparr>)"
proof (induction Vx i s rule: Fx65_loop.induct)
  case (1 Vx i s)
  show ?case
  proof (cases "i \<le> Vx")
    case True
    let ?v = "memory s (unat (index s) + i)"
    let ?s1 = "s\<lparr>registers := (registers s)(i := ?v)\<rparr>"
    have r: "read_memory s (unat (index s) + i) = Inr ?v"
      using True "1.prems" by (simp add: read_memory_def)
    have "Fx65_loop Vx i s = Fx65_loop Vx (i + 1) ?s1"
      using True r by (subst Fx65_loop.simps) simp
    also have "\<dots> = Inr (?s1\<lparr>registers := (\<lambda>j. if i + 1 \<le> j \<and> j \<le> Vx
                            then memory ?s1 (unat (index ?s1) + j) else registers ?s1 j)\<rparr>)"
      using "1.IH"[OF True r] "1.prems" by simp
    also have "\<dots> = Inr (s\<lparr>registers := (\<lambda>j. if i \<le> j \<and> j \<le> Vx
                            then memory s (unat (index s) + j) else registers s j)\<rparr>)"
      using True
      apply simp
      apply (rule arg_cong [where f = "\<lambda>r. s\<lparr>registers := r\<rparr>"])
      apply (auto simp: fun_eq_iff)
      done
    finally show ?thesis .
  next
    case False
    then have "Fx65_loop Vx i s = Inr s"
      by (subst Fx65_loop.simps) simp
    moreover have "(\<lambda>j. if i \<le> j \<and> j \<le> Vx
                            then memory s (unat (index s) + j) else registers s j) = registers s"
      using False by (auto simp: fun_eq_iff)
    ultimately show ?thesis by simp
  qed
qed

lemma Fx65_loop_fail:
  "\<not> unat (index s) + Vx < MEMORY_SIZE \<Longrightarrow> i \<le> Vx \<Longrightarrow> Fx65_loop Vx i s = Inl MemoryOutOfBounds"
proof (induction Vx i s rule: Fx65_loop.induct)
  case (1 Vx i s)
  show ?case
  proof (cases "unat (index s) + i < MEMORY_SIZE")
    case True
    let ?v = "memory s (unat (index s) + i)"
    let ?s1 = "s\<lparr>registers := (registers s)(i := ?v)\<rparr>"
    have r: "read_memory s (unat (index s) + i) = Inr ?v"
      using True by (simp add: read_memory_def)
    have lt: "i + 1 \<le> Vx" using True "1.prems" by (cases "i = Vx") auto
    have "Fx65_loop Vx i s = Fx65_loop Vx (i + 1) ?s1"
      using "1.prems" r by (subst Fx65_loop.simps) simp
    also have "\<dots> = Inl MemoryOutOfBounds"
      using "1.IH"[OF "1.prems"(2) r] "1.prems" lt by simp
    finally show ?thesis .
  next
    case False
    then show ?thesis using "1.prems"
      by (subst Fx65_loop.simps) (simp add: read_memory_def)
  qed
qed

lemma opcode_low_byte:
  "ucast (ucast (w AND 0x0FFF) :: uint8_t) = w AND 0x00FF" for w :: uint16_t
proof -
  have a: "w AND 0x0FFF = take_bit 12 w"
    by (simp add: take_bit_eq_mask mask_eq_exp_minus_1)
  have b: "w AND 0x00FF = take_bit 8 w"
    by (simp add: take_bit_eq_mask mask_eq_exp_minus_1)
  have c: "ucast (ucast u :: uint8_t) = take_bit 8 u" for u :: uint16_t
    by (rule bit_word_eqI) (auto simp: bit_simps)
  show ?thesis
    by (simp only: a b c) simp
qed

section \<open>Claims\<close>

subsection \<open>Load-index\<close>

text \<open>
  C1. The claim: for every instruction word 0xAnnn, load-index sets the index register to
  the whole 12-bit field nnn. The code keeps the masked field in a \<^verbatim>\<open>uint8_t\<close> local
  before it assigns the index, so what \<^verbatim>\<open>OP_Annn\<close> stores is the low byte of the
  instruction word: bits 8 to 11 of nnn are lost. At the word 0xA123 the index becomes
  0x023, where the claim says 0x123.
\<close>

theorem OP_Annn_keeps_low_byte:
  "OP_Annn s = Inr (s\<lparr>index := opcode s AND 0x00FF\<rparr>) \<and>
   OP_Annn (s\<lparr>opcode := 0xA123\<rparr>) = Inr (s\<lparr>opcode := 0xA123, index := 0x023\<rparr>)"
  by (simp add: OP_Annn_def opcode_low_byte)

subsection \<open>Shifts\<close>




subsection \<open>Add with carry\<close>

text \<open>
  C7, as amended. For all register pairs (x, y) with x from 0 to 14 and all 8-bit values
  a = reg[x], b = reg[y] of the pre-state, add-reg sets register 15 to 1 if a + b > 255 and
  to 0 otherwise, and sets reg[x] to (a + b) mod 256. For x = 15 the sum is written after the
  flag into the same register: register 15 ends as (a + b) mod 256.
\<close>

theorem add_reg_flag:
  "\<exists>s'. OP_8xy4 s = Inr s' \<and>
     (opVx s \<noteq> 15 \<longrightarrow>
        registers s' 15 =
          (if unat (registers s (opVx s)) + unat (registers s (opVy s)) > 255 then 1 else 0) \<and>
        unat (registers s' (opVx s)) =
          (unat (registers s (opVx s)) + unat (registers s (opVy s))) mod 256) \<and>
     (opVx s = 15 \<longrightarrow>
        unat (registers s' 15) =
          (unat (registers s (opVx s)) + unat (registers s (opVy s))) mod 256)"
  by (simp add: OP_8xy4_def Let_def word_less_nat_alt unat_sum16 low_byte16)

text \<open>200 + 100 into register 1, 200 + 20 into register 1, and 200 + 100 into register 15.\<close>

theorem add_reg_flag_witness:
  "(\<exists>s'. OP_8xy4 (add_state 0x8124 1 200 2 100) = Inr s' \<and>
      registers s' 15 = 1 \<and> unat (registers s' 1) = 44) \<and>
   (\<exists>s'. OP_8xy4 (add_state 0x8124 1 200 2 20) = Inr s' \<and>
      registers s' 15 = 0 \<and> unat (registers s' 1) = 220) \<and>
   (\<exists>s'. OP_8xy4 (add_state 0x8F24 15 200 2 100) = Inr s' \<and> unat (registers s' 15) = 44)"
  using add_reg_flag [of "add_state 0x8124 1 200 2 100"]
    add_reg_flag [of "add_state 0x8124 1 200 2 20"]
    add_reg_flag [of "add_state 0x8F24 15 200 2 100"]
  by (simp add: add_state_def opVx_def opVy_def)

text \<open>With x = 15, a = 200 and b = 100 the sum exceeds 255, and register 15 ends as 44,
  not as 1.\<close>

theorem add_reg_flag_counterexample:
  "OP_8xy4 (add_state 0x8F24 15 200 2 100) = Inr (add_state 0x8F24 15 44 2 100) \<and>
   unat (registers (add_state 0x8F24 15 200 2 100) 15) +
     unat (registers (add_state 0x8F24 15 200 2 100) 2) > 255 \<and>
   registers (add_state 0x8F24 15 44 2 100) 15 \<noteq> 1"
  by (simp add: add_state_def OP_8xy4_def opVx_def opVy_def)

subsection \<open>Register-block transfers\<close>

text \<open>
  C8. For every register number x and every index for which the bytes index .. index + x lie
  in memory: store-registers(x), then registers 0 to x zeroed (the other registers hold
  anything), then load-registers(x), gives back the original values of registers 0 to x.
  The two instruction words differ, and agree on their x field.
\<close>

theorem store_load_roundtrip:
  assumes inb: "unat (index s) + opVx s < MEMORY_SIZE"
    and zeroed: "\<forall>i\<le>opVx s. rs i = 0"
    and same_x: "opVx (s\<lparr>opcode := w\<rparr>) = opVx s"
  shows "\<exists>s1 s2. OP_Fx55 s = Inr s1 \<and>
           OP_Fx65 (s1\<lparr>registers := rs, opcode := w\<rparr>) = Inr s2 \<and>
           (\<forall>i\<le>opVx s. registers s2 i = registers s i)"
proof -
  let ?x = "opVx s"
  let ?M = "\<lambda>a. if unat (index s) + 0 \<le> a \<and> a \<le> unat (index s) + ?x
                 then registers s (a - unat (index s)) else memory s a"
  let ?s1 = "s\<lparr>memory := ?M\<rparr>"
  let ?t = "?s1\<lparr>registers := rs, opcode := w\<rparr>"
  have store: "OP_Fx55 s = Inr ?s1"
    using Fx55_loop_ok [OF inb, of 0] by (simp add: OP_Fx55_def)
  have x_t: "opVx ?t = ?x"
    using same_x by (simp add: opVx_def)
  have inb_t: "unat (index ?t) + ?x < MEMORY_SIZE"
    using inb by simp
  let ?s2 = "?t\<lparr>registers := (\<lambda>j. if 0 \<le> j \<and> j \<le> ?x
                 then memory ?t (unat (index ?t) + j) else registers ?t j)\<rparr>"
  have load: "OP_Fx65 ?t = Inr ?s2"
    using Fx65_loop_ok [OF inb_t, of 0] x_t by (simp add: OP_Fx65_def)
  have "\<forall>i\<le>?x. registers ?s2 i = registers s i"
    by simp
  with store load show ?thesis by blast
qed

text \<open>Registers 0 to 2 are stored at 0x300 by the word 0xF255, zeroed, and loaded by 0xF265;
  register 3 keeps 44.\<close>

theorem store_load_roundtrip_witness:
  "\<exists>s1 s2. OP_Fx55 (transfer_state 0xF255) = Inr s1 \<and>
     OP_Fx65 (s1\<lparr>registers := (\<lambda>_. 0)(3 := 44), opcode := 0xF265\<rparr>) = Inr s2 \<and>
     registers s2 0 = 11 \<and> registers s2 1 = 22 \<and> registers s2 2 = 33"
  using store_load_roundtrip [of "transfer_state 0xF255" "(\<lambda>_. 0)(3 := 44)" "0xF265"]
  by (fastforce simp: transfer_state_def opVx_def MEMORY_SIZE_def)

text \<open>
  C10. The claim: for every register number x, store-registers and load-registers leave the
  index register as it was (it is not advanced by x + 1), store-registers leaves every
  register as it was, and load-registers leaves all of memory as it was. Where the bytes
  index .. index + x lie in memory the code does so: the store changes those bytes of the
  memory and nothing else, the load changes registers 0 to x and nothing else. The loops
  subscript the memory with index + i and nothing keeps the index in range: once
  index + x exceeds 0xFFF the store writes, and the load reads, past the end of
  \<^verbatim>\<open>memory[4096]\<close>, and the transfer has no state in which the index, the registers and
  the memory are kept. The word 0xF155 with index 0xFFF stores reg[1] at \<^verbatim>\<open>memory[0x1000]\<close>.
\<close>

theorem transfer_past_memory:
  "OP_Fx55 s =
     (if unat (index s) + opVx s \<le> 0x0FFF
      then Inr (s\<lparr>memory := (\<lambda>a. if unat (index s) \<le> a \<and> a \<le> unat (index s) + opVx s
                                then registers s (a - unat (index s)) else memory s a)\<rparr>)
      else Inl MemoryOutOfBounds) \<and>
   OP_Fx65 s =
     (if unat (index s) + opVx s \<le> 0x0FFF
      then Inr (s\<lparr>registers := (\<lambda>j. if j \<le> opVx s then memory s (unat (index s) + j)
                                   else registers s j)\<rparr>)
      else Inl MemoryOutOfBounds) \<and>
   OP_Fx55 ((transfer_state 0xF155)\<lparr>index := 0x0FFF\<rparr>) = Inl MemoryOutOfBounds \<and>
   OP_Fx65 ((transfer_state 0xF165)\<lparr>index := 0x0FFF\<rparr>) = Inl MemoryOutOfBounds"
proof -
  have b: "(unat (index s) + opVx s < MEMORY_SIZE) = (unat (index s) + opVx s \<le> 0x0FFF)"
    by (rule below_memory_size)
  have g1: "OP_Fx55 s =
     (if unat (index s) + opVx s \<le> 0x0FFF
      then Inr (s\<lparr>memory := (\<lambda>a. if unat (index s) \<le> a \<and> a \<le> unat (index s) + opVx s
                                then registers s (a - unat (index s)) else memory s a)\<rparr>)
      else Inl MemoryOutOfBounds)"
  proof (cases "unat (index s) + opVx s < MEMORY_SIZE")
    case True
    then show ?thesis
      using Fx55_loop_ok [OF True, of 0] b by (simp add: OP_Fx55_def)
  next
    case False
    then show ?thesis
      using Fx55_loop_fail [OF False, of 0] b by (simp add: OP_Fx55_def)
  qed
  have g2: "OP_Fx65 s =
     (if unat (index s) + opVx s \<le> 0x0FFF
      then Inr (s\<lparr>registers := (\<lambda>j. if j \<le> opVx s then memory s (unat (index s) + j)
                                   else registers s j)\<rparr>)
      else Inl MemoryOutOfBounds)"
  proof (cases "unat (index s) + opVx s < MEMORY_SIZE")
    case True
    then show ?thesis
      using Fx65_loop_ok [OF True, of 0] b by (simp add: OP_Fx65_def)
  next
    case False
    then show ?thesis
      using Fx65_loop_fail [OF False, of 0] b by (simp add: OP_Fx65_def)
  qed
  have a: "OP_Fx55 ((transfer_state 0xF155)\<lparr>index := 0x0FFF\<rparr>) = Inl MemoryOutOfBounds"
    by (simp add: transfer_state_def OP_Fx55_def opVx_def Fx55_loop.simps write_memory_def
        MEMORY_SIZE_def)
  have c: "OP_Fx65 ((transfer_state 0xF165)\<lparr>index := 0x0FFF\<rparr>) = Inl MemoryOutOfBounds"
    by (simp add: transfer_state_def OP_Fx65_def opVx_def Fx65_loop.simps read_memory_def
        MEMORY_SIZE_def)
  from g1 g2 a c show ?thesis
    by (intro conjI)
qed

subsection \<open>Binary-coded decimal\<close>

text \<open>
  C9. For every 8-bit value v = reg[x] of the pre-state, with the three bytes at index,
  index + 1 and index + 2 in memory, store-bcd writes the hundreds digit of v to
  memory[index], the tens digit to memory[index + 1] and the ones digit to
  memory[index + 2]; store-bcd of 137 writes 1, 3 and 7.
\<close>

theorem store_bcd_digits:
  assumes inb: "unat (index s) + 2 < MEMORY_SIZE"
  shows "\<exists>s'. OP_Fx33 s = Inr s' \<and>
           unat (memory s' (unat (index s))) = unat (registers s (opVx s)) div 100 mod 10 \<and>
           unat (memory s' (unat (index s) + 1)) = unat (registers s (opVx s)) div 10 mod 10 \<and>
           unat (memory s' (unat (index s) + 2)) = unat (registers s (opVx s)) mod 10"
proof -
  let ?v = "registers s (opVx s)"
  let ?a = "unat (index s)"
  let ?s' = "s\<lparr>memory := (memory s)(?a + 2 := ?v mod 10, ?a + 1 := ?v div 10 mod 10,
                 ?a := ?v div 10 div 10 mod 10)\<rparr>"
  have run: "OP_Fx33 s = Inr ?s'"
    using inb by (simp add: OP_Fx33_def write_memory_def Let_def)
  have d0: "unat (?v mod 10) = unat ?v mod 10"
    by (simp add: unat_mod)
  have d1: "unat (?v div 10 mod 10) = unat ?v div 10 mod 10"
    by (simp add: unat_mod unat_div)
  have d2: "unat (?v div 10 div 10 mod 10) = unat ?v div 100 mod 10"
  proof -
    have "unat ?v div 10 div 10 = unat ?v div 100"
      using div_mult2_eq [of "unat ?v" 10 10] by simp
    then show ?thesis by (simp add: unat_mod unat_div)
  qed
  show ?thesis
    using run d0 d1 d2 by simp
qed

theorem store_bcd_digits_witness:
  "\<exists>s'. OP_Fx33 bcd_state = Inr s' \<and>
     unat (memory s' 0x300) = 1 \<and> unat (memory s' 0x301) = 3 \<and> unat (memory s' 0x302) = 7"
  using store_bcd_digits [of bcd_state]
  by (simp add: bcd_state_def opVx_def MEMORY_SIZE_def)

subsection \<open>Dispatch\<close>

lemma low_nibble: "(unat (w AND 0x000F) < 15) = (w AND 0x000F \<noteq> 0x000F)" for w :: uint16_t
proof -
  have "w AND 0x000F \<le> 0x000F"
    by (rule word_and_le1)
  then have "unat (w AND 0x000F) \<le> 15"
    by (simp add: word_le_nat_alt)
  moreover have "(w AND 0x000F = 0x000F) = (unat (w AND 0x000F) = 15)"
    by (simp add: word_unat_eq_iff)
  ultimately show ?thesis by auto
qed

lemma OP_Fx55_error: "OP_Fx55 s \<noteq> Inl TableOutOfBounds"
  using Fx55_loop_ok [of s "opVx s" 0] Fx55_loop_fail [of s "opVx s" 0]
  by (cases "unat (index s) + opVx s < MEMORY_SIZE") (simp_all add: OP_Fx55_def)

lemma OP_Fx65_error: "OP_Fx65 s \<noteq> Inl TableOutOfBounds"
  using Fx65_loop_ok [of s "opVx s" 0] Fx65_loop_fail [of s "opVx s" 0]
  by (cases "unat (index s) + opVx s < MEMORY_SIZE") (simp_all add: OP_Fx65_def)

lemma OP_Fx33_error: "OP_Fx33 s \<noteq> Inl TableOutOfBounds"
  by (simp add: OP_Fx33_def write_memory_def Let_def)

lemma OP_Fx0A_error: "OP_Fx0A s \<noteq> Inl TableOutOfBounds"
  by (simp add: OP_Fx0A_def Let_def)

lemma table0_entries: "i < 15 \<Longrightarrow> (table0 ! i) s \<noteq> Inl TableOutOfBounds"
  by (simp add: table0_def nth_list_update OP_NULL_def OP_00E0_def OP_00EE_def Let_def)

lemma table8_entries: "i < 15 \<Longrightarrow> (table8 ! i) s \<noteq> Inl TableOutOfBounds"
  by (simp add: table8_def nth_list_update OP_NULL_def OP_8xy0_def OP_8xy1_def OP_8xy2_def
      OP_8xy3_def OP_8xy4_def OP_8xy5_def OP_8xy6_def OP_8xy7_def OP_8xyE_def Let_def)

lemma tableE_entries: "i < 15 \<Longrightarrow> (tableE ! i) s \<noteq> Inl TableOutOfBounds"
  by (simp add: tableE_def nth_list_update OP_NULL_def OP_Ex9E_def OP_ExA1_def Let_def)

lemma tableF_entries: "i < 102 \<Longrightarrow> (tableF ! i) s \<noteq> Inl TableOutOfBounds"
  by (simp add: tableF_def nth_list_update OP_NULL_def OP_Fx07_def OP_Fx0A_error OP_Fx15_def
      OP_Fx18_def OP_Fx1E_def OP_Fx29_def OP_Fx33_error OP_Fx55_error OP_Fx65_error Let_def)

text \<open>
  C3. The claim: decode never fails; an instruction word with no rule of its own (family 0x8
  with low nibble 0xF, family 0xF with low byte above 0x65) is a no-op, and every table
  lookup is in bounds. The code fills the sub-tables with \<^verbatim>\<open>OP_NULL\<close>, and declares
  \<^verbatim>\<open>table0\<close>, \<^verbatim>\<open>table8\<close> and \<^verbatim>\<open>tableE\<close> with 15 entries and \<^verbatim>\<open>tableF\<close> with 102, while
  it subscripts them with \<^verbatim>\<open>opcode & 0x000F\<close> and \<^verbatim>\<open>opcode & 0x00FF\<close>: the lookup is past
  the end of the table exactly for low nibble 0xF in families 0x0, 0x8 and 0xE and for a low
  byte above 0x65 in family 0xF. The words 0x800F and 0xF066 are such words, and a cycle
  that fetches 0x800F makes that lookup.
\<close>

theorem sub_table_out_of_bounds:
  "((Table0 s = Inl TableOutOfBounds) = (opcode s AND 0x000F = 0x000F)) \<and>
   ((Table8 s = Inl TableOutOfBounds) = (opcode s AND 0x000F = 0x000F)) \<and>
   ((TableE s = Inl TableOutOfBounds) = (opcode s AND 0x000F = 0x000F)) \<and>
   ((TableF s = Inl TableOutOfBounds) = (0x65 < unat (opcode s AND 0x00FF))) \<and>
   Table8 (s\<lparr>opcode := 0x800F\<rparr>) = Inl TableOutOfBounds \<and>
   TableF (s\<lparr>opcode := 0xF066\<rparr>) = Inl TableOutOfBounds \<and>
   Cycle (example_state\<lparr>memory := (memory example_state)(0x200 := 0x80, 0x201 := 0x0F)\<rparr>) =
     Inl TableOutOfBounds"
proof -
  have l: "length table0 = 15" "length table8 = 15" "length tableE = 15" "length tableF = 102"
    by (simp_all add: table0_def table8_def tableE_def tableF_def)
  have general:
    "((Table0 s = Inl TableOutOfBounds) = (opcode s AND 0x000F = 0x000F)) \<and>
     ((Table8 s = Inl TableOutOfBounds) = (opcode s AND 0x000F = 0x000F)) \<and>
     ((TableE s = Inl TableOutOfBounds) = (opcode s AND 0x000F = 0x000F)) \<and>
     ((TableF s = Inl TableOutOfBounds) = (0x65 < unat (opcode s AND 0x00FF)))"
    using low_nibble [of "opcode s"]
      table0_entries [of "unat (opcode s AND 0x000F)" s]
      table8_entries [of "unat (opcode s AND 0x000F)" s]
      tableE_entries [of "unat (opcode s AND 0x000F)" s]
      tableF_entries [of "unat (opcode s AND 0x00FF)" s]
    by (auto simp: Table0_def Table8_def TableE_def TableF_def call_table_def l)
  have a: "Table8 (s\<lparr>opcode := 0x800F\<rparr>) = Inl TableOutOfBounds"
    by (simp add: Table8_def call_table_def l)
  have b: "TableF (s\<lparr>opcode := 0xF066\<rparr>) = Inl TableOutOfBounds"
    by (simp add: TableF_def call_table_def l)
  have c: "Cycle (example_state\<lparr>memory := (memory example_state)(0x200 := 0x80, 0x201 := 0x0F)\<rparr>) =
      Inl TableOutOfBounds"
    by (simp add: Cycle_def fetch_def read_memory_def MEMORY_SIZE_def call_table_def table_def
        Table8_def l)
  from general a b c show ?thesis
    by blast
qed

subsection \<open>Draw-sprite\<close>

text \<open>
  C2. The claim: every set sprite bit toggles the pixel at
  ((y + row) mod 32) * 64 + ((x + col) mod 64), so an 8x1 sprite at x = 63, y = 31 touches
  columns 63, 0, 1, .., 6 of row 31. The code reduces only the start position (its comment:
  wrap if going beyond screen boundaries) and subscripts the framebuffer with
  (yPos + row) * 64 + (xPos + col). With the sprite byte 0xFF at x = 63, y = 31 the second
  pixel has subscript 2048, past the end of the 2048 pixels. At x = 63, y = 0 the same
  sprite toggles pixel 63 and then pixels 64 to 70, which are columns 0 to 6 of row 1, and
  leaves columns 0 to 6 of row 0 off.
\<close>

theorem draw_sprite_no_pixel_wrap:
  "OP_Dxyn (draw_state 63 31) = Inl VideoOutOfBounds \<and>
   OP_Dxyn (draw_state 63 0) =
     Inr ((draw_state 63 0)\<lparr>registers := (registers (draw_state 63 0))(0xF := 0),
       video := (\<lambda>_. 0)
       (63 := 0xFFFFFFFF, 64 := 0xFFFFFFFF, 65 := 0xFFFFFFFF, 66 := 0xFFFFFFFF,
        67 := 0xFFFFFFFF, 68 := 0xFFFFFFFF, 69 := 0xFFFFFFFF, 70 := 0xFFFFFFFF)\<rparr>)"
  by (simp add: draw_state_def OP_Dxyn_def opVx_def opVy_def Dxyn_rows.simps Dxyn_cols.simps
      read_memory_def Dxyn_pixel_def MEMORY_SIZE_def VIDEO_SIZE_def VIDEO_WIDTH_def
      VIDEO_HEIGHT_def)

subsection \<open>Wait-key\<close>

lemma Fx0A_scan_eq:
  "Fx0A_scan Vx i keyPress s =
     (if filter (\<lambda>j. keypad s j \<noteq> 0) [i..<16] = [] then (keyPress, s)
      else (True, s\<lparr>registers := (registers s)(Vx := of_nat (last (filter (\<lambda>j. keypad s j \<noteq> 0) [i..<16])))\<rparr>))"
proof (induction Vx i keyPress s rule: Fx0A_scan.induct)
  case (1 Vx i keyPress s)
  let ?P = "\<lambda>j. keypad s j \<noteq> 0"
  show ?case
  proof (cases "i < 16")
    case False
    then show ?thesis
      by (subst Fx0A_scan.simps) simp
  next
    case True
    then have upt: "[i..<16] = i # [i + 1..<16]"
      by (simp add: upt_conv_Cons)
    show ?thesis
    proof (cases "keypad s i \<noteq> 0")
      case pressed: True
      let ?s1 = "s\<lparr>registers := (registers s)(Vx := of_nat i)\<rparr>"
      let ?rest = "filter ?P [i + 1..<16]"
      have step: "Fx0A_scan Vx i keyPress s = Fx0A_scan Vx (i + 1) True ?s1"
        using True pressed by (subst Fx0A_scan.simps) simp
      have ih: "Fx0A_scan Vx (i + 1) True ?s1 =
          (if ?rest = [] then (True, ?s1)
           else (True, s\<lparr>registers := (registers s)(Vx := of_nat (last ?rest))\<rparr>))"
        using "1.IH"(1) [OF True pressed] by simp
      have fl: "filter ?P [i..<16] = i # ?rest"
        using pressed by (subst upt) simp
      show ?thesis
        unfolding step ih fl by simp
    next
      case released: False
      let ?rest = "filter ?P [i + 1..<16]"
      have step: "Fx0A_scan Vx i keyPress s = Fx0A_scan Vx (i + 1) keyPress s"
        using True released by (subst Fx0A_scan.simps) simp
      have fl: "filter ?P [i..<16] = ?rest"
        using released by (subst upt) simp
      show ?thesis
        unfolding step fl using "1.IH"(2) [OF True released] by simp
    qed
  qed
qed

lemma OP_Fx0A_eq:
  "OP_Fx0A s =
     (if filter (\<lambda>j. keypad s j \<noteq> 0) [0..<16] = [] then Inr (s\<lparr>pc := pc s - 2\<rparr>)
      else Inr (s\<lparr>registers := (registers s)(opVx s := of_nat (last (filter (\<lambda>j. keypad s j \<noteq> 0) [0..<16])))\<rparr>))"
  by (simp add: OP_Fx0A_def Let_def Fx0A_scan_eq)

lemma update_timers_frame [simp]:
  "pc (update_timers s) = pc s" "registers (update_timers s) = registers s"
  "memory (update_timers s) = memory s" "keypad (update_timers s) = keypad s"
  "index (update_timers s) = index s"
  by (simp_all add: update_timers_def Let_def)

lemma fetch_frame:
  assumes "fetch s = Inr s1"
  shows "s1 = s\<lparr>opcode := opcode s1\<rparr>"
  using assms by (auto simp: fetch_def read_memory_def split: if_splits)

lemma table_F: "table ! 15 = TableF" "length table = 16"
  by (simp_all add: table_def)

lemma tableF_0A: "tableF ! 10 = OP_Fx0A" "length tableF = 102"
  by (simp_all add: tableF_def)

lemma family_F:
  fixes w :: "16 word"
  assumes "w AND 0xF0FF = 0xF00A"
  shows "unat (drop_bit 12 (w AND 0xF000)) = 15" "unat (w AND 0x00FF) = 10"
proof -
  have "w AND 0xF000 = (w AND 0xF0FF) AND 0xF000"
    by (simp add: and.assoc)
  then have "w AND 0xF000 = 0xF000"
    using assms by simp
  then show "unat (drop_bit 12 (w AND 0xF000)) = 15"
    by (simp add: drop_bit_eq_div)
  have "w AND 0x00FF = (w AND 0xF0FF) AND 0x00FF"
    by (simp add: and.assoc)
  then have "w AND 0x00FF = 0x000A"
    using assms by simp
  then show "unat (w AND 0x00FF) = 10"
    by simp
qed

lemma Cycle_Fx0A:
  assumes f: "fetch s = Inr s1" and w: "opcode s1 AND 0xF0FF = 0xF00A"
  shows "Cycle s = (case OP_Fx0A (s1\<lparr>pc := pc s1 + 2\<rparr>) of Inl e \<Rightarrow> Inl e | Inr s3 \<Rightarrow> Inr (update_timers s3))"
  using f family_F [OF w]
  by (simp add: Cycle_def Let_def call_table_def table_F TableF_def tableF_0A)

text \<open>
  C4, as amended. For every machine state whose fetch yields a wait-key word 0xFx0A: if no
  key is pressed, wait-key rewinds the program counter by 2, so the Step leaves the program
  counter, the registers and the memory as they were and the next Step executes the same
  instruction; in a Step in which at least one key is pressed, the program counter advances
  by 2 and reg[x] is set to the highest index of a pressed key, the last the ascending scan
  detects.
\<close>

theorem wait_key_step:
  assumes f: "fetch s = Inr s1" and w: "opcode s1 AND 0xF0FF = 0xF00A"
  shows "\<exists>s'. Cycle s = Inr s' \<and> memory s' = memory s \<and>
     (if filter (\<lambda>j. keypad s j \<noteq> 0) [0..<16] = []
      then OP_Fx0A s1 = Inr (s1\<lparr>pc := pc s1 - 2\<rparr>) \<and> pc s' = pc s \<and>
           registers s' = registers s
      else pc s' = pc s + 2 \<and>
           registers s' = (registers s)
             (opVx s1 := of_nat (last (filter (\<lambda>j. keypad s j \<noteq> 0) [0..<16]))))"
proof -
  have s1: "s1 = s\<lparr>opcode := opcode s1\<rparr>"
    using f by (rule fetch_frame)
  have k: "keypad s1 = keypad s" "pc s1 = pc s" "registers s1 = registers s" "memory s1 = memory s"
    by (subst s1, simp)+
  have x: "opVx (s1\<lparr>pc := pc s1 + 2\<rparr>) = opVx s1"
    by (simp add: opVx_def)
  show ?thesis
    unfolding Cycle_Fx0A [OF f w] OP_Fx0A_eq
    using k x by simp
qed

text \<open>The word 0xF30A at 0x200, first with no key pressed, then with keys 2 and 5 pressed.\<close>

theorem wait_key_step_witness:
  "(\<exists>s'. Cycle (wait_state (\<lambda>_. 0)) = Inr s' \<and> pc s' = 0x200 \<and> registers s' = (\<lambda>_. 0)) \<and>
   (\<exists>s'. Cycle (wait_state ((\<lambda>_. 0)(2 := 1, 5 := 1))) = Inr s' \<and> pc s' = 0x202 \<and>
      registers s' 3 = 5)"
  using wait_key_step [of "wait_state (\<lambda>_. 0)" "(wait_state (\<lambda>_. 0))\<lparr>opcode := 0xF30A\<rparr>"]
    wait_key_step [of "wait_state ((\<lambda>_. 0)(2 := 1, 5 := 1))"
      "(wait_state ((\<lambda>_. 0)(2 := 1, 5 := 1)))\<lparr>opcode := 0xF30A\<rparr>"]
  by (fastforce simp: wait_state_def fetch_def read_memory_def MEMORY_SIZE_def opVx_def upt_rec)

text \<open>With keys 2 and 5 pressed, and keys 0 and 1 not, the lowest and first detected
  pressed key is 2; wait-key leaves 5 in register 3.\<close>

theorem wait_key_counterexample:
  "OP_Fx0A ((wait_state ((\<lambda>_. 0)(2 := 1, 5 := 1)))\<lparr>opcode := 0xF30A\<rparr>) =
     Inr ((wait_state ((\<lambda>_. 0)(2 := 1, 5 := 1)))
       \<lparr>opcode := 0xF30A, registers := (\<lambda>_. 0)(3 := 5)\<rparr>) \<and>
   keypad (wait_state ((\<lambda>_. 0)(2 := 1, 5 := 1))) 0 = 0 \<and>
   keypad (wait_state ((\<lambda>_. 0)(2 := 1, 5 := 1))) 1 = 0 \<and>
   keypad (wait_state ((\<lambda>_. 0)(2 := 1, 5 := 1))) 2 \<noteq> 0"
  by (simp add: wait_state_def OP_Fx0A_def opVx_def Fx0A_scan.simps)

subsection \<open>Addresses\<close>

text \<open>
  C5. The claim: every instruction-level address is masked to 12 bits before it is used, so
  every memory access and every assignment of the program counter stays within
  0x000-0xFFF. The code masks the address field of the instruction word and nothing else.
  Jump-offset assigns the sum reg[0] + addr as it is, add-to-index adds reg[x] to the index
  as it is, and neither \<^verbatim>\<open>Cycle\<close> nor a handler reduces the program counter or the index
  before it subscripts the memory: the fetch is past the end of \<^verbatim>\<open>memory[4096]\<close> exactly
  when the program counter is 0xFFF or more. The header of the source gives the address
  space as 0x000 to 0xFFF and says that the index and the program counter hold values from
  0x000 to 0xFFF. With the word 0xBFFF at 0x200 and reg[0] = 0xFF the Step assigns the
  program counter 0x10FE, and the next Step fetches at \<^verbatim>\<open>memory[0x10FE]\<close>.
\<close>

theorem unmasked_addresses:
  "OP_Bnnn s = Inr (s\<lparr>pc := ucast (registers s 0) + (opcode s AND 0x0FFF)\<rparr>) \<and>
   OP_Fx1E s = Inr (s\<lparr>index := index s + ucast (registers s (opVx s))\<rparr>) \<and>
   ((fetch s = Inl MemoryOutOfBounds) = (0x0FFF \<le> unat (pc s))) \<and>
   Cycle jump_state = Inr (jump_state\<lparr>opcode := 0xBFFF, pc := 0x10FE\<rparr>) \<and>
   \<not> unat (pc (jump_state\<lparr>opcode := 0xBFFF, pc := 0x10FE\<rparr>)) \<le> 0x0FFF \<and>
   Cycle (jump_state\<lparr>opcode := 0xBFFF, pc := 0x10FE\<rparr>) = Inl MemoryOutOfBounds"
proof -
  have f: "(fetch s = Inl MemoryOutOfBounds) = (0x0FFF \<le> unat (pc s))"
    by (auto simp: fetch_def read_memory_def MEMORY_SIZE_def)
  have run: "Cycle jump_state = Inr (jump_state\<lparr>opcode := 0xBFFF, pc := 0x10FE\<rparr>)"
    "\<not> unat (pc (jump_state\<lparr>opcode := 0xBFFF, pc := 0x10FE\<rparr>)) \<le> 0x0FFF"
    "Cycle (jump_state\<lparr>opcode := 0xBFFF, pc := 0x10FE\<rparr>) = Inl MemoryOutOfBounds"
    by (simp_all add: jump_state_def Cycle_def fetch_def read_memory_def MEMORY_SIZE_def
        call_table_def table_def OP_Bnnn_def update_timers_def)
  from f run show ?thesis
    by (simp add: OP_Bnnn_def OP_Fx1E_def)
qed

end
